theory Spec2Isabelle
  imports Main "HOL-Library.Sublist"
begin

section \<open>Values the script receives from the gateway\<close>

text \<open>
  \<^verbatim>\<open>response.json()\<close> yields an arbitrary JSON value. An object is the list of its own
  properties as \<^verbatim>\<open>JSON.parse\<close> leaves them (each key once). \<open>JNum n\<close> stands for an
  integer-valued number that a double holds exactly (magnitude at most \<open>2 ^ 53\<close>),
  which JavaScript prints in plain decimal; fractional numbers and integers beyond
  that range, printed from \<open>10 ^ 21\<close> on in exponent form, are outside this model and
  nothing below depends on how they print. A JavaScript value is a \<open>json option\<close>,
  \<open>None\<close> being \<^verbatim>\<open>undefined\<close>.
\<close>

datatype json =
    JNull
  | JBool bool
  | JNum int
  | JStr string
  | JArr "json list"
  | JObj "(string \<times> json) list"

datatype exn = TypeError | SyntaxError | NetworkFailure

definition andThen :: "exn + 'a \<Rightarrow> ('a \<Rightarrow> exn + 'b) \<Rightarrow> exn + 'b" where
  "andThen m f = (case m of Inl e \<Rightarrow> Inl e | Inr x \<Rightarrow> f x)"

text \<open>
  Property read \<^verbatim>\<open>v.k\<close>. It throws on \<^verbatim>\<open>undefined\<close> and \<^verbatim>\<open>null\<close>; on an object it
  is the own property; on a string, number, boolean or array it is \<^verbatim>\<open>undefined\<close>,
  since none of the names the script reads (\<^verbatim>\<open>id\<close>, \<^verbatim>\<open>email\<close>, \<^verbatim>\<open>detail\<close>, \<^verbatim>\<open>url\<close>,
  \<^verbatim>\<open>overall_summary\<close>, \<^verbatim>\<open>details\<close>, \<^verbatim>\<open>virustotal\<close>, \<^verbatim>\<open>google_safe_browsing\<close>,
  \<^verbatim>\<open>status\<close>, \<^verbatim>\<open>malicious_count\<close>, \<^verbatim>\<open>harmless_count\<close>, \<^verbatim>\<open>results_url\<close>,
  \<^verbatim>\<open>message\<close>) is a built-in property of those.
\<close>

fun field :: "json \<Rightarrow> string \<Rightarrow> json option" where
  "field (JObj kvs) k = map_of kvs k"
| "field _ k = None"

fun get_prop :: "json option \<Rightarrow> string \<Rightarrow> exn + json option" where
  "get_prop None k = Inl TypeError"
| "get_prop (Some JNull) k = Inl TypeError"
| "get_prop (Some j) k = Inr (field j k)"

fun truthy :: "json option \<Rightarrow> bool" where
  "truthy None = False"
| "truthy (Some JNull) = False"
| "truthy (Some (JBool b)) = b"
| "truthy (Some (JNum n)) = (n \<noteq> 0)"
| "truthy (Some (JStr s)) = (s \<noteq> [])"
| "truthy (Some (JArr xs)) = True"
| "truthy (Some (JObj kvs)) = True"

fun digits :: "nat \<Rightarrow> string" where
  "digits n =
     (if n < 10 then [''0123456789'' ! n]
      else digits (n div 10) @ [''0123456789'' ! (n mod 10)])"

fun join :: "string list \<Rightarrow> string" where
  "join [] = []"
| "join [x] = x"
| "join (x # y # ys) = x @ '','' @ join (y # ys)"

text \<open>
  The conversion to a string that template literals and \<^verbatim>\<open>Storage.setItem\<close> apply.
  An array is joined with commas, \<^verbatim>\<open>null\<close> elements printing as the empty string. A
  parsed object prints as \<^verbatim>\<open>[object Object]\<close> through the inherited \<^verbatim>\<open>toString\<close>;
  when it has an own property named \<^verbatim>\<open>toString\<close> (a JSON value, so not callable) the
  conversion finds no callable method that returns a primitive and throws a TypeError.
\<close>

fun to_string :: "json \<Rightarrow> exn + string"
  and elems_to_strings :: "json list \<Rightarrow> exn + string list" where
  "to_string JNull = Inr ''null''"
| "to_string (JBool b) = Inr (if b then ''true'' else ''false'')"
| "to_string (JNum n) = Inr (if n < 0 then ''-'' @ digits (nat (- n)) else digits (nat n))"
| "to_string (JStr s) = Inr s"
| "to_string (JArr xs) =
     (case elems_to_strings xs of Inl e \<Rightarrow> Inl e | Inr ss \<Rightarrow> Inr (join ss))"
| "to_string (JObj kvs) =
     (if map_of kvs ''toString'' = None then Inr ''[object Object]'' else Inl TypeError)"
| "elems_to_strings [] = Inr []"
| "elems_to_strings (x # xs) =
     (case (if x = JNull then Inr [] else to_string x) of
        Inl e \<Rightarrow> Inl e
      | Inr s \<Rightarrow> (case elems_to_strings xs of Inl e \<Rightarrow> Inl e | Inr ss \<Rightarrow> Inr (s # ss)))"

definition to_str :: "json option \<Rightarrow> exn + string" where
  "to_str v = (case v of None \<Rightarrow> Inr ''undefined'' | Some j \<Rightarrow> to_string j)"

text \<open>\<^verbatim>\<open>${v || 'fallback'}\<close> inside a template literal.\<close>

definition or_else :: "json option \<Rightarrow> string \<Rightarrow> exn + string" where
  "or_else v fallback = (if truthy v then to_str v else Inr fallback)"

text \<open>
  \<^verbatim>\<open>v.includes(needle)\<close>: the substring test on a string, the membership test on an
  array; every other value has no callable \<^verbatim>\<open>includes\<close>, and \<^verbatim>\<open>undefined\<close> and
  \<^verbatim>\<open>null\<close> have no properties at all, so the call throws.
\<close>

fun js_includes :: "json option \<Rightarrow> string \<Rightarrow> exn + bool" where
  "js_includes (Some (JStr s)) needle = Inr (sublist needle s)"
| "js_includes (Some (JArr xs)) needle = Inr (JStr needle \<in> set xs)"
| "js_includes _ needle = Inl TypeError"

text \<open>
  \<^verbatim>\<open>v > 0\<close>. What number a string denotes is the runtime's business (floating-point
  literals, hexadecimal, whitespace): \<open>str_gt0 s\<close> is the parameter saying whether the
  string \<open>s\<close>, converted to a number, is greater than zero.
\<close>

fun gt_zero :: "(string \<Rightarrow> bool) \<Rightarrow> json option \<Rightarrow> exn + bool" where
  "gt_zero str_gt0 None = Inr False"
| "gt_zero str_gt0 (Some JNull) = Inr False"
| "gt_zero str_gt0 (Some (JBool b)) = Inr b"
| "gt_zero str_gt0 (Some (JNum n)) = Inr (0 < n)"
| "gt_zero str_gt0 (Some (JStr s)) = Inr (str_gt0 s)"
| "gt_zero str_gt0 (Some j) = andThen (to_string j) (\<lambda>s. Inr (str_gt0 s))"

section \<open>The page, the session storage and the gateway\<close>

text \<open>
  The markup is not part of the sources, so the document is a parameter: the elements
  in tree order, each with its id, whether it carries the class \<^verbatim>\<open>view\<close>, its inline
  \<^verbatim>\<open>style.display\<close>, its text or HTML content (kept as an opaque string) and, for a
  form control, its value.
\<close>

record element =
  elem_id :: string
  is_view :: bool
  display :: string
  content :: string
  input_value :: string

datatype body = NotJson | Json json

text \<open>
  The outcome of \<^verbatim>\<open>fetch\<close> followed by \<^verbatim>\<open>response.json()\<close>: no response at all, or a
  status code and a body that parses as JSON or does not (an empty body does not).
\<close>

datatype fetch_result = NoResponse | Response nat body

definition ok :: "nat \<Rightarrow> bool" where
  "ok st = (200 \<le> st \<and> st \<le> 299)"

text \<open>
  A network call, by the data it is built from: \<open>Register userData\<close> posts the fields
  collected from the form, \<open>Login email\<close> posts \<^verbatim>\<open>{email}\<close>, \<open>Scan url userId\<close> posts
  \<^verbatim>\<open>{url, user_id: parseInt(userId)}\<close>.
\<close>

datatype request =
    Register "(string \<times> string) list"
  | Login string
  | Scan string string

record state =
  sessionStorage :: "string \<rightharpoonup> string"
  document :: "element list"
  alerts :: "string list"
  console :: "(string \<times> exn) list"
  requests :: "request list"

text \<open>
  The first element, in tree order, whose id is the one asked for. An element whose
  \<^verbatim>\<open>id\<close> attribute is empty has no id, so the empty string finds nothing.
\<close>

definition getElementById :: "string \<Rightarrow> element list \<Rightarrow> element option" where
  "getElementById i d = (if i = [] then None else find (\<lambda>e. elem_id e = i) d)"

text \<open>A write through the reference \<^verbatim>\<open>getElementById\<close> returned: the first element with that id.\<close>

fun update_element :: "string \<Rightarrow> (element \<Rightarrow> element) \<Rightarrow> element list \<Rightarrow> element list" where
  "update_element i f [] = []"
| "update_element i f (e # es) =
     (if elem_id e = i then f e # es else e # update_element i f es)"

definition alert :: "string \<Rightarrow> state \<Rightarrow> state" where
  "alert m s = s\<lparr>alerts := alerts s @ [m]\<rparr>"

definition console_error :: "string \<Rightarrow> exn \<Rightarrow> state \<Rightarrow> state" where
  "console_error m e s = s\<lparr>console := console s @ [(m, e)]\<rparr>"

definition fetch :: "request \<Rightarrow> state \<Rightarrow> state" where
  "fetch r s = s\<lparr>requests := requests s @ [r]\<rparr>"

definition setItem :: "string \<Rightarrow> string \<Rightarrow> state \<Rightarrow> state" where
  "setItem k v s = s\<lparr>sessionStorage := (sessionStorage s)(k \<mapsto> v)\<rparr>"

definition removeItem :: "string \<Rightarrow> state \<Rightarrow> state" where
  "removeItem k s = s\<lparr>sessionStorage := (sessionStorage s)(k := None)\<rparr>"

text \<open>\<^verbatim>\<open>if (sessionStorage.getItem(k))\<close>: the key is stored and its string is not empty.\<close>

definition item_truthy :: "state \<Rightarrow> string \<Rightarrow> bool" where
  "item_truthy s k = (case sessionStorage s k of None \<Rightarrow> False | Some v \<Rightarrow> v \<noteq> [])"

section \<open>View management and navigation\<close>

text \<open>
  Every function returns the exception that escaped it, if any, with the state it left
  behind: what was written before a throw stays written.
\<close>

text \<open>\<^verbatim>\<open>document.querySelectorAll('.view').forEach(view => view.style.display = 'none')\<close>\<close>

definition hide_views :: "element list \<Rightarrow> element list" where
  "hide_views d = map (\<lambda>view. if is_view view then view\<lparr>display := ''none''\<rparr> else view) d"

text \<open>\<^verbatim>\<open>const viewToShow = document.getElementById(viewId); if (viewToShow) ...\<close>\<close>

definition show_element :: "string \<Rightarrow> element list \<Rightarrow> element list" where
  "show_element viewId d =
     (case getElementById viewId d of
        None \<Rightarrow> d
      | Some viewToShow \<Rightarrow> update_element viewId (\<lambda>e. e\<lparr>display := ''block''\<rparr>) d)"

definition showView :: "string \<Rightarrow> state \<Rightarrow> exn option \<times> state" where
  "showView viewId s =
     (let shown = show_element viewId (hide_views (document s));
          s1 = s\<lparr>document := shown\<rparr>
      in if viewId = ''dashboard-view'' then
           (case sessionStorage s ''currentUserEmail'' of
              None \<Rightarrow> (None, s1)
            | Some userEmail \<Rightarrow>
                if userEmail \<noteq> [] then
                  (case getElementById ''welcome-message'' shown of
                     None \<Rightarrow> (Some TypeError, s1)
                   | Some w \<Rightarrow>
                       (None, s1\<lparr>document :=
                          update_element ''welcome-message''
                            (\<lambda>e. e\<lparr>content := ''Welcome, '' @ userEmail\<rparr>) shown\<rparr>))
                else (None, s1))
         else (None, s1))"

definition goToDashboard :: "state \<Rightarrow> exn option \<times> state" where
  "goToDashboard s =
     (if item_truthy s ''currentUserId'' then showView ''dashboard-view'' s
      else showView ''login-view'' s)"

definition handleSignOut :: "state \<Rightarrow> exn option \<times> state" where
  "handleSignOut s =
     showView ''home-view''
       (alert ''You have been signed out.''
          (removeItem ''currentUserEmail'' (removeItem ''currentUserId'' s)))"

text \<open>The views whose inline style does not hide them, by id, in document order.\<close>

definition visible_views :: "element list \<Rightarrow> string list" where
  "visible_views d = map elem_id (filter (\<lambda>e. is_view e \<and> display e \<noteq> ''none'') d)"

text \<open>\<open>v\<close> identifies a view of the page: the element the id resolves to is a view.\<close>

definition is_view_id :: "string \<Rightarrow> element list \<Rightarrow> bool" where
  "is_view_id v d = (case getElementById v d of None \<Rightarrow> False | Some e \<Rightarrow> is_view e)"

text \<open>A sequence of navigation clicks, each its own event: a throw in one does not stop the next.\<close>

fun navigate :: "string list \<Rightarrow> state \<Rightarrow> state" where
  "navigate [] s = s"
| "navigate (v # vs) s = navigate vs (snd (showView v s))"

section \<open>Talking to the gateway\<close>

text \<open>\<^verbatim>\<open>await fetch(...)\<close> then \<^verbatim>\<open>await response.json()\<close>: both reject into the enclosing \<^verbatim>\<open>try\<close>.\<close>

fun await_json :: "fetch_result \<Rightarrow> exn + (nat \<times> json)" where
  "await_json NoResponse = Inl NetworkFailure"
| "await_json (Response st NotJson) = Inl SyntaxError"
| "await_json (Response st (Json result)) = Inr (st, result)"

subsection \<open>Registration\<close>

text \<open>
  The submitted form is the map from the selectors the handler queries to the value of
  the control each one matches (\<open>None\<close> when nothing matches, where reading \<^verbatim>\<open>.value\<close>
  throws).
\<close>

fun form_values :: "(string \<rightharpoonup> string) \<Rightarrow> (string \<times> string) list \<Rightarrow> exn + (string \<times> string) list" where
  "form_values form [] = Inr []"
| "form_values form ((k, selector) # rest) =
     (case form selector of
        None \<Rightarrow> Inl TypeError
      | Some v \<Rightarrow> andThen (form_values form rest) (\<lambda>kvs. Inr ((k, v) # kvs)))"

definition collect_userData :: "(string \<rightharpoonup> string) \<Rightarrow> exn + (string \<times> string) list" where
  \<open>collect_userData form =
     andThen (form_values form
                [(''scope'', ''input[name="scope"]:checked''), (''email'', ''#reg-email'')])
       (\<lambda>userData.
          case map_of userData ''scope'' of
            None \<Rightarrow> Inl TypeError
          | Some scope \<Rightarrow>
              if scope = ''individual'' then
                andThen (form_values form
                           [(''first_name'', ''#reg-first-name''),
                            (''last_name'', ''#reg-last-name''),
                            (''mobile'', ''#reg-mobile'')])
                  (\<lambda>more. Inr (userData @ more))
              else if scope = ''enterprise'' then
                andThen (form_values form
                           [(''company_name'', ''#reg-company-name''),
                            (''company_website'', ''#reg-company-website''),
                            (''phone'', ''#reg-phone'')])
                  (\<lambda>more. Inr (userData @ more))
              else Inr userData)\<close>

definition registration_try :: "(string \<times> string) list \<Rightarrow> fetch_result \<Rightarrow> state \<Rightarrow> exn option \<times> state" where
  "registration_try userData resp s =
     (let s1 = fetch (Register userData) s
      in case await_json resp of
           Inl e \<Rightarrow> (Some e, s1)
         | Inr (st, result) \<Rightarrow>
             if ok st then
               showView ''login-view''
                 (alert ''Registration successful! Please sign in with your email.'' s1)
             else
               (case andThen (get_prop (Some result) ''detail'')
                       (\<lambda>d. or_else d ''An unknown error occurred.'') of
                  Inl e \<Rightarrow> (Some e, s1)
                | Inr m \<Rightarrow> (None, alert (''Registration failed: '' @ m) s1)))"

definition registration_unreachable :: string where
  "registration_unreachable =
     ''Could not connect to the backend server. Check the API URL and network connection.''"

definition handleRegistration :: "(string \<rightharpoonup> string) \<Rightarrow> fetch_result \<Rightarrow> state \<Rightarrow> exn option \<times> state" where
  "handleRegistration form resp s =
     (case collect_userData form of
        Inl e \<Rightarrow> (Some e, s)
      | Inr userData \<Rightarrow>
          (case registration_try userData resp s of
             (None, s') \<Rightarrow> (None, s')
           | (Some e, s') \<Rightarrow>
               (None, alert registration_unreachable
                        (console_error ''Network error during registration:'' e s'))))"

subsection \<open>Login\<close>

definition login_try :: "string \<Rightarrow> fetch_result \<Rightarrow> state \<Rightarrow> exn option \<times> state" where
  "login_try email resp s =
     (let s1 = fetch (Login email) s
      in case await_json resp of
           Inl e \<Rightarrow> (Some e, s1)
         | Inr (st, result) \<Rightarrow>
             if ok st then
               (let s2 = alert ''Login successful!'' s1
                in case andThen (get_prop (Some result) ''id'') to_str of
                     Inl e \<Rightarrow> (Some e, s2)
                   | Inr uid \<Rightarrow>
                       (let s3 = setItem ''currentUserId'' uid s2
                        in case andThen (get_prop (Some result) ''email'') to_str of
                             Inl e \<Rightarrow> (Some e, s3)
                           | Inr mail \<Rightarrow>
                               goToDashboard (setItem ''currentUserEmail'' mail s3)))
             else
               (case andThen (get_prop (Some result) ''detail'')
                       (\<lambda>d. or_else d ''Invalid email or user not found.'') of
                  Inl e \<Rightarrow> (Some e, s1)
                | Inr m \<Rightarrow> (None, alert (''Login failed: '' @ m) s1)))"

definition login_unreachable :: string where
  "login_unreachable = ''Could not connect to the backend server. Check network connection.''"

definition handleLogin :: "fetch_result \<Rightarrow> state \<Rightarrow> exn option \<times> state" where
  "handleLogin resp s =
     (case getElementById ''login-email'' (document s) of
        None \<Rightarrow> (Some TypeError, s)
      | Some input \<Rightarrow>
          (case login_try (input_value input) resp s of
             (None, s') \<Rightarrow> (None, s')
           | (Some e, s') \<Rightarrow>
               (None, alert login_unreachable
                        (console_error ''Network error during login:'' e s'))))"

subsection \<open>Scanning a URL and rendering the result\<close>

definition line :: "nat \<Rightarrow> string \<Rightarrow> string" where
  "line indent text = CHR 0x0A # replicate indent CHR '' '' @ text"

definition statusClass :: "json option \<Rightarrow> exn + string" where
  "statusClass summary =
     andThen (js_includes summary ''DANGER'')
       (\<lambda>danger.
          if danger then Inr ''text-danger''
          else andThen (js_includes summary ''WARNING'')
                 (\<lambda>warning. if warning then Inr ''text-warning'' else Inr ''text-success''))"

definition virustotal_html :: "(string \<Rightarrow> bool) \<Rightarrow> json \<Rightarrow> exn + string" where
  \<open>virustotal_html str_gt0 vt =
     andThen (to_str (field vt ''status'')) (\<lambda>status.
     andThen (gt_zero str_gt0 (field vt ''malicious_count'')) (\<lambda>flagged.
     andThen (to_str (field vt ''malicious_count'')) (\<lambda>malicious_count.
     andThen (to_str (field vt ''harmless_count'')) (\<lambda>harmless_count.
     andThen (to_str (field vt ''results_url'')) (\<lambda>results_url.
       Inr (line 12 ''<p><strong>VirusTotal Summary:</strong></p>''
          @ line 12 ''<ul>''
          @ line 16 (''<li>Status: '' @ status @ ''</li>'')
          @ line 16 (''<li>Malicious Flags: <span class="''
                     @ (if flagged then ''text-danger'' else ''text-success'')
                     @ ''">'' @ malicious_count @ ''</span></li>'')
          @ line 16 (''<li>Harmless Checks: '' @ harmless_count @ ''</li>'')
          @ line 16 (''<li><a href="'' @ results_url
                     @ ''" target="_blank">View Full VT Report</a></li>'')
          @ line 12 ''</ul>''
          @ line 8 []))))))\<close>

definition safe_browsing_html :: "json \<Rightarrow> exn + string" where
  \<open>safe_browsing_html gsb =
     andThen (to_str (field gsb ''status'')) (\<lambda>status.
     andThen (to_str (field gsb ''message'')) (\<lambda>message.
       Inr (line 12 ''<p><strong>Google Safe Browsing:</strong></p>''
          @ line 12 ''<ul>''
          @ line 16 (''<li>Status: <span class="''
                     @ (if field gsb ''status'' = Some (JStr ''SAFE'')
                        then ''text-success'' else ''text-danger'')
                     @ ''">'' @ status @ ''</span></li>'')
          @ line 16 (''<li>Message: '' @ message @ ''</li>'')
          @ line 12 ''</ul>''
          @ line 8 [])))\<close>

text \<open>The markup \<^verbatim>\<open>displayScanResult\<close> assigns, from the strings already converted.\<close>

definition result_html :: "string \<Rightarrow> string \<Rightarrow> string \<Rightarrow> string \<Rightarrow> string \<Rightarrow> string" where
  \<open>result_html cls url summary detailsHtml now =
       line 8 (''<h4 class="'' @ cls @ ''">Scan Result for: '' @ url @ ''</h4>'')
     @ line 8 (''<p class="h5 '' @ cls @ ''">'' @ summary @ ''</p>'')
     @ line 8 ''<hr>''
     @ line 8 detailsHtml
     @ line 8 (''<p class="text-muted small">Report generated: '' @ now @ ''</p>'')
     @ line 4 []\<close>

text \<open>
  \<open>displayScanResult\<close> returns the markup it assigns to the target element, or the
  exception it throws before assigning anything. \<open>now\<close> is the string
  \<^verbatim>\<open>new Date().toLocaleTimeString()\<close> gives at render time.
\<close>

definition displayScanResult :: "(string \<Rightarrow> bool) \<Rightarrow> string \<Rightarrow> json \<Rightarrow> exn + string" where
  "displayScanResult str_gt0 now data =
     andThen (get_prop (Some data) ''overall_summary'') (\<lambda>summary.
     andThen (statusClass summary) (\<lambda>cls.
     andThen (get_prop (Some data) ''details'') (\<lambda>details.
     andThen (get_prop details ''virustotal'') (\<lambda>vt.
     andThen (case vt of
                None \<Rightarrow> Inr []
              | Some v \<Rightarrow> if truthy vt then virustotal_html str_gt0 v else Inr []) (\<lambda>vt_html.
     andThen (get_prop details ''google_safe_browsing'') (\<lambda>gsb.
     andThen (case gsb of
                None \<Rightarrow> Inr []
              | Some g \<Rightarrow> if truthy gsb then safe_browsing_html g else Inr []) (\<lambda>gsb_html.
     andThen (to_str (field data ''url'')) (\<lambda>url.
     andThen (to_str summary) (\<lambda>summary_text.
       Inr (result_html cls url summary_text (vt_html @ gsb_html) now))))))))))"

definition set_innerHTML :: "string \<Rightarrow> string \<Rightarrow> state \<Rightarrow> state" where
  "set_innerHTML i html s =
     s\<lparr>document := update_element i (\<lambda>e. e\<lparr>content := html\<rparr>) (document s)\<rparr>"

definition set_value :: "string \<Rightarrow> string \<Rightarrow> state \<Rightarrow> state" where
  "set_value i v s =
     s\<lparr>document := update_element i (\<lambda>e. e\<lparr>input_value := v\<rparr>) (document s)\<rparr>"

definition scan_try :: "(string \<Rightarrow> bool) \<Rightarrow> string \<Rightarrow> string \<Rightarrow> string \<Rightarrow> fetch_result \<Rightarrow> state \<Rightarrow> exn option \<times> state" where
  \<open>scan_try str_gt0 now url userId resp s =
     (let s1 = fetch (Scan url userId) s
      in case await_json resp of
           Inl e \<Rightarrow> (Some e, s1)
         | Inr (st, result) \<Rightarrow>
             if ok st then
               (case displayScanResult str_gt0 now result of
                  Inl e \<Rightarrow> (Some e, s1)
                | Inr html \<Rightarrow>
                    (None, set_value ''url-input'' [] (set_innerHTML ''url-scan-result'' html s1)))
             else
               (case andThen (get_prop (Some result) ''detail'') (\<lambda>d. or_else d ''Server error.'') of
                  Inl e \<Rightarrow> (Some e, s1)
                | Inr m \<Rightarrow>
                    (None, set_innerHTML ''url-scan-result''
                             (''<p class="text-danger">Scan failed: '' @ m @ ''</p>'') s1)))\<close>

definition scanning_html :: string where
  \<open>scanning_html = ''<p class="text-warning">Scanning... This may take a moment.</p>''\<close>

definition scan_unreachable_html :: string where
  \<open>scan_unreachable_html = ''<p class="text-danger">Failed to connect to API for scan.</p>''\<close>

definition handleUrlScan :: "(string \<Rightarrow> bool) \<Rightarrow> string \<Rightarrow> fetch_result \<Rightarrow> state \<Rightarrow> exn option \<times> state" where
  "handleUrlScan str_gt0 now resp s =
     (case getElementById ''url-input'' (document s) of
        None \<Rightarrow> (Some TypeError, s)
      | Some urlInput \<Rightarrow>
          (case sessionStorage s ''currentUserId'' of
             None \<Rightarrow> (None, alert ''You must be logged in to perform a scan.'' s)
           | Some userId \<Rightarrow>
               if userId = [] then (None, alert ''You must be logged in to perform a scan.'' s)
               else if input_value urlInput = [] then
                 (None, alert ''Please enter a URL to scan.'' s)
               else
                 (case getElementById ''url-scan-result'' (document s) of
                    None \<Rightarrow> (Some TypeError, s)
                  | Some resultDiv \<Rightarrow>
                      (case scan_try str_gt0 now (input_value urlInput) userId resp
                              (set_innerHTML ''url-scan-result'' scanning_html s) of
                         (None, s') \<Rightarrow> (None, s')
                       | (Some e, s') \<Rightarrow>
                           (None, set_innerHTML ''url-scan-result'' scan_unreachable_html
                                    (console_error ''Network error during URL scan:'' e s'))))))"

text \<open>
  What lets \<open>displayScanResult\<close> finish: each value it interpolates converts to a
  string. \<open>prints v\<close> says that of one value; \<open>section_prints part keys\<close> says it of
  the listed fields of a details section, which are read only when the section is
  truthy.
\<close>

definition prints :: "json option \<Rightarrow> bool" where
  "prints v = (case to_str v of Inl e \<Rightarrow> False | Inr text \<Rightarrow> True)"

definition section_prints :: "json option \<Rightarrow> string list \<Rightarrow> bool" where
  "section_prints part keys =
     (case part of
        None \<Rightarrow> True
      | Some v \<Rightarrow> \<not> truthy part \<or> list_all (\<lambda>k. prints (field v k)) keys)"

text \<open>What no handler changes: the ids of the elements and which of them are views.\<close>

definition skeleton :: "element list \<Rightarrow> (string \<times> bool) list" where
  "skeleton d = map (\<lambda>e. (elem_id e, is_view e)) d"

section \<open>A sample page\<close>

text \<open>
  A page with the four views, the welcome line and the controls the handlers read, as
  the script expects to find them, in the state the load handler leaves for a visitor
  who is not signed in: the home view displayed, the others hidden.
\<close>

definition node :: "string \<Rightarrow> bool \<Rightarrow> string \<Rightarrow> string \<Rightarrow> element" where
  "node i v d x = \<lparr>elem_id = i, is_view = v, display = d, content = [], input_value = x\<rparr>"

definition page :: "element list" where
  "page =
     [node ''home-view'' True ''block'' [],
      node ''registration-view'' True ''none'' [],
      node ''login-view'' True ''none'' [],
      node ''login-email'' False [] ''a@b.com'',
      node ''dashboard-view'' True ''none'' [],
      node ''welcome-message'' False [] [],
      node ''url-input'' False [] ''http://x'',
      node ''url-scan-result'' False [] []]"

definition fresh :: state where
  "fresh = \<lparr>sessionStorage = Map.empty, document = page, alerts = [], console = [],
            requests = []\<rparr>"

definition signed_in :: "string \<Rightarrow> string \<Rightarrow> state" where
  "signed_in uid mail =
     fresh\<lparr>sessionStorage := [''currentUserId'' \<mapsto> uid, ''currentUserEmail'' \<mapsto> mail]\<rparr>"

text \<open>
  A stand-in for the runtime's comparison in the samples: it is the runtime's answer on
  a run of decimal digits, the only strings the samples compare with zero.
\<close>

definition decimal_gt0 :: "string \<Rightarrow> bool" where
  "decimal_gt0 s = list_ex (\<lambda>c. c \<noteq> CHR ''0'') s"

text \<open>Scan results: the one the gateway documents, two that leave its shape, and three
  with other summaries.\<close>

definition danger_result :: json where
  "danger_result =
     JObj [(''url'', JStr ''http://x''),
           (''overall_summary'', JStr ''DANGER: malicious''),
           (''details'', JObj [(''virustotal'',
              JObj [(''status'', JStr ''done''), (''malicious_count'', JNum 3),
                    (''harmless_count'', JNum 10), (''results_url'', JStr ''u'')])])]"

definition array_result :: json where
  "array_result = JObj [(''overall_summary'', JArr [JStr ''DANGER'']), (''details'', JNum 1)]"

definition no_details_result :: json where
  "no_details_result = JObj [(''url'', JStr ''http://x''), (''overall_summary'', JStr ''CLEAN'')]"

definition warning_result :: json where
  "warning_result =
     JObj [(''url'', JStr ''http://x''), (''overall_summary'', JStr ''WARNING: suspicious''),
           (''details'', JObj [])]"

definition clean_result :: json where
  "clean_result =
     JObj [(''url'', JStr ''http://x''), (''overall_summary'', JStr ''CLEAN: no threats found''),
           (''details'', JObj [])]"

definition mixed_result :: json where
  "mixed_result =
     JObj [(''url'', JStr ''http://x''), (''overall_summary'', JStr ''WARNING, then DANGER''),
           (''details'', JObj [])]"

text \<open>A login reply with the two fields the script reads.\<close>

definition login_body :: "json \<Rightarrow> json \<Rightarrow> json" where
  "login_body i m = JObj [(''id'', i), (''email'', m)]"

text \<open>The two session keys are stored together or not at all.\<close>

definition session_coherent :: "state \<Rightarrow> bool" where
  "session_coherent s \<longleftrightarrow>
     (sessionStorage s ''currentUserId'' = None) = (sessionStorage s ''currentUserEmail'' = None)"

section \<open>Facts about the document\<close>

lemma getElementById_Cons:
  "getElementById i (e # es) =
     (if i = [] then None else if elem_id e = i then Some e else getElementById i es)"
  by (simp add: getElementById_def)

lemma visible_views_Cons:
  "visible_views (e # es) =
     (if is_view e \<and> display e \<noteq> ''none'' then elem_id e # visible_views es
      else visible_views es)"
  by (simp add: visible_views_def)

lemma visible_views_hidden: "visible_views (hide_views d) = []"
  by (induction d) (simp_all add: visible_views_def hide_views_def)

lemma hide_views_Cons:
  "hide_views (e # es) = (if is_view e then e\<lparr>display := ''none''\<rparr> else e) # hide_views es"
  by (simp add: hide_views_def)

lemma update_element_absent:
  "find (\<lambda>e. elem_id e = i) d = None \<Longrightarrow> update_element i f d = d"
  by (induction d) (auto split: if_splits)

lemma show_element_update:
  "v \<noteq> [] \<Longrightarrow> show_element v d = update_element v (\<lambda>e. e\<lparr>display := ''block''\<rparr>) d"
  by (auto simp add: show_element_def getElementById_def update_element_absent split: option.split)

lemma show_element_empty: "show_element [] d = d"
  by (simp add: show_element_def getElementById_def)

lemma visible_views_update_shown:
  "v \<noteq> [] \<Longrightarrow>
   visible_views (update_element v (\<lambda>e. e\<lparr>display := ''block''\<rparr>) (hide_views d)) =
     (if is_view_id v d then [v] else [])"
proof (induction d)
  case Nil
  then show ?case by (simp add: visible_views_def is_view_id_def getElementById_def hide_views_def)
next
  case (Cons e es)
  then show ?case
    by (simp add: visible_views_Cons is_view_id_def getElementById_Cons visible_views_hidden
          hide_views_Cons)
qed

lemma visible_views_shown:
  "visible_views (show_element v (hide_views d)) = (if is_view_id v d then [v] else [])"
proof (cases "v = []")
  case True
  then show ?thesis
    by (simp add: show_element_empty visible_views_hidden is_view_id_def getElementById_def)
next
  case False
  then show ?thesis by (simp add: show_element_update visible_views_update_shown)
qed

lemma visible_views_content:
  "visible_views (update_element i (\<lambda>e. e\<lparr>content := c\<rparr>) d) = visible_views d"
  by (induction d) (simp_all add: visible_views_Cons visible_views_def)

lemma showView_visible:
  "visible_views (document (snd (showView v s))) = (if is_view_id v (document s) then [v] else [])"
  by (simp add: showView_def Let_def visible_views_shown visible_views_content
           split: option.split)

lemma is_view_id_skeleton: "skeleton d = skeleton d' \<Longrightarrow> is_view_id v d = is_view_id v d'"
proof (induction d arbitrary: d')
  case Nil
  then show ?case by (simp add: skeleton_def)
next
  case (Cons e es)
  then obtain e' es' where d': "d' = e' # es'" by (auto simp: skeleton_def)
  with Cons.prems have "elem_id e = elem_id e'" "is_view e = is_view e'" "skeleton es = skeleton es'"
    by (simp_all add: skeleton_def)
  with Cons.IH[of es'] show ?case
    by (simp add: d' is_view_id_def getElementById_Cons)
qed

lemma skeleton_update:
  "(\<And>e. elem_id (f e) = elem_id e \<and> is_view (f e) = is_view e) \<Longrightarrow>
   skeleton (update_element i f d) = skeleton d"
  by (induction d) (simp_all add: skeleton_def)

lemma skeleton_hide: "skeleton (hide_views d) = skeleton d"
  by (induction d) (simp_all add: skeleton_def hide_views_def)

lemma skeleton_show: "skeleton (show_element v d) = skeleton d"
  by (simp add: show_element_def skeleton_update split: option.split)

lemma showView_skeleton: "skeleton (document (snd (showView v s))) = skeleton (document s)"
  by (simp add: showView_def Let_def skeleton_update skeleton_hide skeleton_show
        split: option.split)

lemma navigate_skeleton: "skeleton (document (navigate vs s)) = skeleton (document s)"
  by (induction vs arbitrary: s) (simp_all add: showView_skeleton)

lemma navigate_snoc: "navigate (vs @ [v]) s = snd (showView v (navigate vs s))"
  by (induction vs arbitrary: s) simp_all

lemma showView_keeps:
  "sessionStorage (snd (showView v s)) = sessionStorage s"
  "alerts (snd (showView v s)) = alerts s"
  "console (snd (showView v s)) = console s"
  "requests (snd (showView v s)) = requests s"
  by (simp_all add: showView_def Let_def split: option.split)

lemma find_hide:
  "find (\<lambda>e. elem_id e = i) (hide_views d) = None \<longleftrightarrow> find (\<lambda>e. elem_id e = i) d = None"
  by (induction d) (simp_all add: hide_views_def)

lemma getElementById_hide:
  "getElementById i (hide_views d) = None \<longleftrightarrow> getElementById i d = None"
  by (simp add: getElementById_def find_hide)

lemma find_update:
  "(\<And>e. elem_id (f e) = elem_id e) \<Longrightarrow>
   find (\<lambda>e. elem_id e = i) (update_element j f d) = None \<longleftrightarrow>
     find (\<lambda>e. elem_id e = i) d = None"
  by (induction d) simp_all

lemma getElementById_update:
  "(\<And>e. elem_id (f e) = elem_id e) \<Longrightarrow>
   getElementById i (update_element j f d) = None \<longleftrightarrow> getElementById i d = None"
  by (simp add: getElementById_def find_update)

lemma getElementById_show:
  "getElementById i (show_element v d) = None \<longleftrightarrow> getElementById i d = None"
  by (simp add: show_element_def getElementById_update split: option.split)

lemma showView_no_throw:
  "getElementById ''welcome-message'' (document s) \<noteq> None \<Longrightarrow> fst (showView v s) = None"
  by (auto simp add: showView_def Let_def getElementById_show getElementById_hide
           split: option.split)

lemma page_facts:
  "is_view_id ''home-view'' page" "is_view_id ''login-view'' page"
  "is_view_id ''registration-view'' page" "is_view_id ''dashboard-view'' page"
  "getElementById ''welcome-message'' page \<noteq> None"
  "getElementById ''login-email'' page = Some (node ''login-email'' False [] ''a@b.com'')"
  "getElementById ''url-input'' page = Some (node ''url-input'' False [] ''http://x'')"
  "getElementById ''url-scan-result'' page = Some (node ''url-scan-result'' False [] [])"
  by (simp_all add: page_def is_view_id_def getElementById_def node_def)

section \<open>Navigation\<close>

text \<open>
  C6. For every identifier \<open>v\<close> of a view of the page and every sequence of
  \<open>showView\<close> calls that ends with \<open>showView v\<close>, the views left visible are exactly
  the one view \<open>v\<close>. The earlier calls may name anything, views or not.
\<close>

theorem navigate_shows_last:
  assumes "is_view_id v (document s)"
  shows "visible_views (document (navigate (vs @ [v]) s)) = [v]"
proof -
  have "is_view_id v (document (navigate vs s))"
    using assms is_view_id_skeleton[OF navigate_skeleton] by simp
  then show ?thesis
    by (simp add: navigate_snoc showView_visible)
qed

theorem navigate_shows_last_witness:
  "is_view_id ''login-view'' (document fresh) \<and>
   visible_views
     (document (navigate ([''dashboard-view'', ''no-such-view'', ''home-view''] @ [''login-view''])
        fresh)) = [''login-view'']"
  using navigate_shows_last[of "''login-view''" fresh
          "[''dashboard-view'', ''no-such-view'', ''home-view'']"]
  by (simp add: fresh_def page_facts)

lemma showView_other_no_throw: "v \<noteq> ''dashboard-view'' \<Longrightarrow> fst (showView v s) = None"
  by (simp add: showView_def Let_def)

text \<open>
  C2, as the code has it. On a page that has the dashboard and login views,
  \<open>goToDashboard\<close> shows the dashboard if and only if a non-empty string is stored under
  \<^verbatim>\<open>currentUserId\<close>; in every other case, the key missing or its string empty, it
  shows the login view.
\<close>

theorem goToDashboard_iff_truthy:
  assumes "is_view_id ''dashboard-view'' (document s)" "is_view_id ''login-view'' (document s)"
  shows "(visible_views (document (snd (goToDashboard s))) = [''dashboard-view'']
            \<longleftrightarrow> (\<exists>userId. sessionStorage s ''currentUserId'' = Some userId \<and> userId \<noteq> [])) \<and>
         (visible_views (document (snd (goToDashboard s))) \<noteq> [''dashboard-view'']
            \<longrightarrow> visible_views (document (snd (goToDashboard s))) = [''login-view''])"
  using assms
  by (auto simp add: goToDashboard_def showView_visible item_truthy_def split: option.splits)

theorem goToDashboard_iff_truthy_witness:
  "is_view_id ''dashboard-view'' (document (signed_in ''7'' ''a@b.com'')) \<and>
   is_view_id ''login-view'' (document (signed_in ''7'' ''a@b.com'')) \<and>
   visible_views (document (snd (goToDashboard (signed_in ''7'' ''a@b.com'')))) = [''dashboard-view''] \<and>
   visible_views (document (snd (goToDashboard fresh))) = [''login-view'']"
  using goToDashboard_iff_truthy[of "signed_in ''7'' ''a@b.com''"] goToDashboard_iff_truthy[of fresh]
  by (simp add: signed_in_def fresh_def page_facts)

text \<open>
  C2 as stated fails where the user id is stored but empty, as a login answered with
  \<^verbatim>\<open>{"id": ""}\<close> leaves it: the id is present, and the login view is shown.
\<close>

theorem goToDashboard_present_but_empty:
  "sessionStorage (signed_in [] ''a@b.com'') ''currentUserId'' \<noteq> None \<and>
   is_view_id ''dashboard-view'' (document (signed_in [] ''a@b.com'')) \<and>
   visible_views (document (snd (goToDashboard (signed_in [] ''a@b.com'')))) = [''login-view'']"
  by (simp add: goToDashboard_def showView_visible item_truthy_def signed_in_def fresh_def page_facts)

section \<open>Signing out\<close>

text \<open>
  C8. On a page that has the home view, \<open>handleSignOut\<close> returns normally with both
  session keys removed, the sign-out alert raised (before it returns) and the home view
  as the only visible view.
\<close>

theorem signOut_clears_and_goes_home:
  assumes "is_view_id ''home-view'' (document s)"
  shows "sessionStorage (snd (handleSignOut s)) ''currentUserId'' = None \<and>
         sessionStorage (snd (handleSignOut s)) ''currentUserEmail'' = None \<and>
         alerts (snd (handleSignOut s)) = alerts s @ [''You have been signed out.''] \<and>
         visible_views (document (snd (handleSignOut s))) = [''home-view''] \<and>
         fst (handleSignOut s) = None"
  using assms
  by (simp add: handleSignOut_def showView_keeps showView_visible showView_other_no_throw
        alert_def removeItem_def)

theorem signOut_clears_and_goes_home_witness:
  "is_view_id ''home-view'' (document (signed_in ''7'' ''a@b.com'')) \<and>
   sessionStorage (signed_in ''7'' ''a@b.com'') ''currentUserId'' = Some ''7'' \<and>
   sessionStorage (snd (handleSignOut (signed_in ''7'' ''a@b.com''))) ''currentUserId'' = None \<and>
   sessionStorage (snd (handleSignOut (signed_in ''7'' ''a@b.com''))) ''currentUserEmail'' = None \<and>
   alerts (snd (handleSignOut (signed_in ''7'' ''a@b.com''))) = [''You have been signed out.''] \<and>
   visible_views (document (snd (handleSignOut (signed_in ''7'' ''a@b.com'')))) = [''home-view'']"
  using signOut_clears_and_goes_home[of "signed_in ''7'' ''a@b.com''"]
  by (simp add: signed_in_def fresh_def page_facts)

section \<open>Scanning\<close>

text \<open>
  C4. On a page that has the URL input, a scan submitted while no user id is stored, or
  with an empty URL, makes no network call and changes nothing but the list of alerts,
  to which it adds one message, whatever the gateway would have answered.
\<close>

theorem scan_refused_locally:
  assumes "getElementById ''url-input'' (document s) = Some urlInput"
    and "sessionStorage s ''currentUserId'' = None \<or> input_value urlInput = []"
  shows "handleUrlScan str_gt0 now resp s =
           (None, s\<lparr>alerts := alerts s @
              [if item_truthy s ''currentUserId'' then ''Please enter a URL to scan.''
               else ''You must be logged in to perform a scan.'']\<rparr>) \<and>
         requests (snd (handleUrlScan str_gt0 now resp s)) = requests s"
  using assms
  by (auto simp add: handleUrlScan_def alert_def item_truthy_def split: option.splits)

theorem scan_refused_locally_witness:
  "getElementById ''url-input'' (document fresh) = Some (node ''url-input'' False [] ''http://x'') \<and>
   sessionStorage fresh ''currentUserId'' = None \<and>
   handleUrlScan decimal_gt0 ''10:00:00'' (Response 200 (Json JNull)) fresh =
     (None, fresh\<lparr>alerts := [''You must be logged in to perform a scan.'']\<rparr>) \<and>
   requests (snd (handleUrlScan decimal_gt0 ''10:00:00'' (Response 200 (Json JNull)) fresh)) = []"
  using scan_refused_locally[of fresh "node ''url-input'' False [] ''http://x''"
          decimal_gt0 "''10:00:00''" "Response 200 (Json JNull)"]
  by (simp add: fresh_def page_facts item_truthy_def)

section \<open>Rendering a scan result\<close>

lemma andThen_Inr_iff: "andThen m f = Inr y \<longleftrightarrow> (\<exists>x. m = Inr x \<and> f x = Inr y)"
  by (cases m) (simp_all add: andThen_def)

lemma andThen_simps: "andThen (Inl e) f = Inl e" "andThen (Inr x) f = f x"
  by (simp_all add: andThen_def)

lemma get_prop_Inr_iff:
  "get_prop v k = Inr r \<longleftrightarrow> (\<exists>j. v = Some j \<and> j \<noteq> JNull \<and> r = field j k)"
  by (cases "(v, k)" rule: get_prop.cases) auto

lemma get_prop_nonnull: "j \<noteq> JNull \<Longrightarrow> get_prop (Some j) k = Inr (field j k)"
  by (cases j) simp_all

lemma field_Some_get_prop: "field j k = Some v \<Longrightarrow> get_prop (Some j) k = Inr (Some v)"
  by (cases j) simp_all

lemma js_includes_Inr_iff:
  "js_includes v needle = Inr b \<longleftrightarrow>
     (\<exists>s. v = Some (JStr s) \<and> b = sublist needle s) \<or>
     (\<exists>xs. v = Some (JArr xs) \<and> b = (JStr needle \<in> set xs))"
  by (cases "(v, needle)" rule: js_includes.cases) auto

lemma statusClass_string:
  "statusClass (Some (JStr s)) =
     Inr (if sublist ''DANGER'' s then ''text-danger''
          else if sublist ''WARNING'' s then ''text-warning'' else ''text-success'')"
  by (simp add: statusClass_def andThen_simps)

lemma statusClass_Inr:
  "statusClass v = Inr c \<Longrightarrow> (\<exists>s. v = Some (JStr s)) \<or> (\<exists>xs. v = Some (JArr xs))"
  by (auto simp add: statusClass_def andThen_Inr_iff js_includes_Inr_iff)

lemma statusClass_absent: "statusClass None = Inl TypeError"
  by (simp add: statusClass_def andThen_simps)

lemma statusClass_throws: "statusClass v = Inl e \<Longrightarrow> e = TypeError"
  by (cases "(v, ''DANGER'')" rule: js_includes.cases)
     (auto simp add: statusClass_def andThen_def split: if_splits)

lemma prints_iff: "prints v \<longleftrightarrow> (\<exists>text. to_str v = Inr text)"
  by (cases "to_str v") (simp_all add: prints_def)

lemma gt_zero_prints: "prints v \<Longrightarrow> \<exists>b. gt_zero str_gt0 v = Inr b"
  by (cases "(str_gt0, v)" rule: gt_zero.cases)
     (auto simp add: prints_iff to_str_def andThen_def split: if_splits sum.splits)

lemma virustotal_html_prints:
  assumes "list_all (\<lambda>k. prints (field v k))
             [''status'', ''malicious_count'', ''harmless_count'', ''results_url'']"
  shows "\<exists>html. virustotal_html str_gt0 v = Inr html"
proof -
  from assms obtain a b c d where
    "to_str (field v ''status'') = Inr a" "to_str (field v ''malicious_count'') = Inr b"
    "to_str (field v ''harmless_count'') = Inr c" "to_str (field v ''results_url'') = Inr d"
    by (auto simp add: prints_iff)
  moreover from assms obtain f where "gt_zero str_gt0 (field v ''malicious_count'') = Inr f"
    using gt_zero_prints[of "field v ''malicious_count''" str_gt0] by auto
  ultimately show ?thesis by (simp add: virustotal_html_def andThen_simps)
qed

lemma safe_browsing_html_prints:
  assumes "list_all (\<lambda>k. prints (field g k)) [''status'', ''message'']"
  shows "\<exists>html. safe_browsing_html g = Inr html"
proof -
  from assms obtain a b where
    "to_str (field g ''status'') = Inr a" "to_str (field g ''message'') = Inr b"
    by (auto simp add: prints_iff)
  then show ?thesis by (simp add: safe_browsing_html_def andThen_simps)
qed

lemma virustotal_part_prints:
  assumes "section_prints part [''status'', ''malicious_count'', ''harmless_count'', ''results_url'']"
  shows "\<exists>html. (case part of None \<Rightarrow> Inr []
                  | Some v \<Rightarrow> if truthy part then virustotal_html str_gt0 v else Inr []) = Inr html"
proof (cases part)
  case None
  then show ?thesis by simp
next
  case (Some v)
  show ?thesis
  proof (cases "truthy part")
    case True
    with assms Some have "list_all (\<lambda>k. prints (field v k))
             [''status'', ''malicious_count'', ''harmless_count'', ''results_url'']"
      by (simp add: section_prints_def)
    from virustotal_html_prints[OF this, of str_gt0] Some True show ?thesis by simp
  next
    case False
    with Some show ?thesis by simp
  qed
qed

lemma safe_browsing_part_prints:
  assumes "section_prints part [''status'', ''message'']"
  shows "\<exists>html. (case part of None \<Rightarrow> Inr []
                  | Some g \<Rightarrow> if truthy part then safe_browsing_html g else Inr []) = Inr html"
proof (cases part)
  case None
  then show ?thesis by simp
next
  case (Some g)
  show ?thesis
  proof (cases "truthy part")
    case True
    with assms Some have "list_all (\<lambda>k. prints (field g k)) [''status'', ''message'']"
      by (simp add: section_prints_def)
    from safe_browsing_html_prints[OF this] Some True show ?thesis by simp
  next
    case False
    with Some show ?thesis by simp
  qed
qed

lemma displayScanResult_returns:
  assumes "field data ''overall_summary'' = Some (JStr summary)"
    and "field data ''details'' = Some details" and "details \<noteq> JNull"
    and "prints (field data ''url'')"
    and "section_prints (field details ''virustotal'')
           [''status'', ''malicious_count'', ''harmless_count'', ''results_url'']"
    and "section_prints (field details ''google_safe_browsing'') [''status'', ''message'']"
  shows "\<exists>html. displayScanResult str_gt0 now data = Inr html"
proof -
  have 1: "get_prop (Some data) ''overall_summary'' = Inr (Some (JStr summary))"
    using assms(1) by (rule field_Some_get_prop)
  have 2: "get_prop (Some data) ''details'' = Inr (Some details)"
    using assms(2) by (rule field_Some_get_prop)
  have 3: "get_prop (Some details) k = Inr (field details k)" for k
    using assms(3) by (rule get_prop_nonnull)
  obtain vt_html where 4:
    "(case field details ''virustotal'' of None \<Rightarrow> Inr []
      | Some v \<Rightarrow> if truthy (field details ''virustotal'') then virustotal_html str_gt0 v
                  else Inr []) = Inr vt_html"
    using virustotal_part_prints[OF assms(5), of str_gt0] by blast
  obtain gsb_html where 5:
    "(case field details ''google_safe_browsing'' of None \<Rightarrow> Inr []
      | Some g \<Rightarrow> if truthy (field details ''google_safe_browsing'') then safe_browsing_html g
                  else Inr []) = Inr gsb_html"
    using safe_browsing_part_prints[OF assms(6)] by blast
  obtain url where 6: "to_str (field data ''url'') = Inr url"
    using assms(4) by (auto simp add: prints_iff)
  have 7: "to_str (Some (JStr summary)) = Inr summary"
    by (simp add: to_str_def)
  show ?thesis
    by (simp add: displayScanResult_def 1 2 3 4 5 6 7 andThen_simps statusClass_string)
qed

lemma replicate_spaces:
  "replicate 4 CHR '' '' = ''    ''" "replicate 8 CHR '' '' = ''        ''"
  "replicate 12 CHR '' '' = ''            ''" "replicate 16 CHR '' '' = ''                ''"
  by (simp_all add: eval_nat_numeral)

lemma line_simps:
  "line 4 t = CHR 0x0A # ''    '' @ t" "line 8 t = CHR 0x0A # ''        '' @ t"
  "line 12 t = CHR 0x0A # ''            '' @ t" "line 16 t = CHR 0x0A # ''                '' @ t"
  by (simp_all only: line_def replicate_spaces)

text \<open>
  C5. When the result carries a string as \<^verbatim>\<open>overall_summary\<close>, the status class is
  decided by that string alone: \<^verbatim>\<open>text-danger\<close> if it contains \<^verbatim>\<open>DANGER\<close>, else
  \<^verbatim>\<open>text-warning\<close> if it contains \<^verbatim>\<open>WARNING\<close>, else \<^verbatim>\<open>text-success\<close> (so a summary
  with both words is classified as danger). Whatever markup \<open>displayScanResult\<close>
  returns is the template of the script with that class on the heading and on the
  summary line; and it does return markup whenever \<^verbatim>\<open>details\<close> is present and not
  \<^verbatim>\<open>null\<close> and the values it interpolates convert to strings.
\<close>

theorem statusClass_from_summary:
  assumes "field data ''overall_summary'' = Some (JStr summary)"
  shows "let cls = (if sublist ''DANGER'' summary then ''text-danger''
                    else if sublist ''WARNING'' summary then ''text-warning''
                    else ''text-success'')
         in statusClass (Some (JStr summary)) = Inr cls \<and>
            (\<forall>html. displayScanResult str_gt0 now data = Inr html \<longrightarrow>
               (\<exists>url detailsHtml.
                  html =
                    [CHR 0x0A] @ ''        <h4 class='' @ [CHR 0x22] @ cls @ [CHR 0x22] @
                    ''>Scan Result for: '' @ url @ ''</h4>'' @ [CHR 0x0A] @
                    ''        <p class='' @ [CHR 0x22] @ ''h5 '' @ cls @ [CHR 0x22] @
                    ''>'' @ summary @ ''</p>'' @ [CHR 0x0A] @ ''        <hr>'' @
                    [CHR 0x0A] @ ''        '' @ detailsHtml @ [CHR 0x0A] @
                    ''        <p class='' @ [CHR 0x22] @ ''text-muted small'' @ [CHR 0x22] @
                    ''>Report generated: '' @ now @ ''</p>'' @ [CHR 0x0A] @ ''    '')) \<and>
            (\<forall>details.
               field data ''details'' = Some details \<and> details \<noteq> JNull \<and>
               prints (field data ''url'') \<and>
               section_prints (field details ''virustotal'')
                 [''status'', ''malicious_count'', ''harmless_count'', ''results_url''] \<and>
               section_prints (field details ''google_safe_browsing'') [''status'', ''message'']
               \<longrightarrow> (\<exists>html. displayScanResult str_gt0 now data = Inr html))"
proof -
  let ?cls = "if sublist ''DANGER'' summary then ''text-danger''
              else if sublist ''WARNING'' summary then ''text-warning'' else ''text-success''"
  have a: "statusClass (Some (JStr summary)) = Inr ?cls"
    by (rule statusClass_string)
  have p: "get_prop (Some data) ''overall_summary'' = Inr (Some (JStr summary))"
    using assms by (rule field_Some_get_prop)
  have b: "\<exists>url detailsHtml. html = result_html ?cls url summary detailsHtml now"
    if r: "displayScanResult str_gt0 now data = Inr html" for html
  proof -
    from r obtain cls url vt_html gsb_html where
      c: "statusClass (Some (JStr summary)) = Inr cls" and
      h: "html = result_html cls url summary (vt_html @ gsb_html) now"
      unfolding displayScanResult_def p andThen_simps
      by (auto simp add: andThen_Inr_iff to_str_def)
    from c h show ?thesis unfolding statusClass_string by blast
  qed
  have c: "\<exists>html. displayScanResult str_gt0 now data = Inr html"
    if "field data ''details'' = Some details" "details \<noteq> JNull"
       "prints (field data ''url'')"
       "section_prints (field details ''virustotal'')
          [''status'', ''malicious_count'', ''harmless_count'', ''results_url'']"
       "section_prints (field details ''google_safe_browsing'') [''status'', ''message'']"
    for details
    using displayScanResult_returns[OF assms that] .
  from a b c show ?thesis
    unfolding Let_def result_html_def line_simps
    by (simp only: append_Cons append_Nil append_assoc) blast
qed

theorem statusClass_from_summary_witness:
  "field danger_result ''overall_summary'' = Some (JStr ''DANGER: malicious'') \<and>
   displayScanResult decimal_gt0 ''10:00:00'' danger_result =
     Inr ([CHR 0x0A] @ ''        <h4 class='' @ [CHR 0x22] @ ''text-danger'' @ [CHR 0x22] @
          ''>Scan Result for: http://x</h4>'' @ [CHR 0x0A] @ ''        <p class='' @
          [CHR 0x22] @ ''h5 text-danger'' @ [CHR 0x22] @ ''>DANGER: malicious</p>'' @
          [CHR 0x0A] @ ''        <hr>'' @ [CHR 0x0A] @ ''        '' @ [CHR 0x0A] @
          ''            <p><strong>VirusTotal Summary:</strong></p>'' @ [CHR 0x0A] @
          ''            <ul>'' @ [CHR 0x0A] @ ''                <li>Status: done</li>'' @
          [CHR 0x0A] @ ''                <li>Malicious Flags: <span class='' @ [CHR 0x22] @
          ''text-danger'' @ [CHR 0x22] @ ''>3</span></li>'' @ [CHR 0x0A] @
          ''                <li>Harmless Checks: 10</li>'' @ [CHR 0x0A] @
          ''                <li><a href='' @ [CHR 0x22] @ ''u'' @ [CHR 0x22] @ '' target='' @
          [CHR 0x22] @ ''_blank'' @ [CHR 0x22] @ ''>View Full VT Report</a></li>'' @
          [CHR 0x0A] @ ''            </ul>'' @ [CHR 0x0A] @ ''        '' @ [CHR 0x0A] @
          ''        <p class='' @ [CHR 0x22] @ ''text-muted small'' @ [CHR 0x22] @
          ''>Report generated: 10:00:00</p>'' @ [CHR 0x0A] @ ''    '') \<and>
   field warning_result ''overall_summary'' = Some (JStr ''WARNING: suspicious'') \<and>
   displayScanResult decimal_gt0 ''10:00:00'' warning_result =
     Inr ([CHR 0x0A] @ ''        <h4 class='' @ [CHR 0x22] @ ''text-warning'' @ [CHR 0x22] @
          ''>Scan Result for: http://x</h4>'' @ [CHR 0x0A] @ ''        <p class='' @
          [CHR 0x22] @ ''h5 text-warning'' @ [CHR 0x22] @ ''>WARNING: suspicious</p>'' @
          [CHR 0x0A] @ ''        <hr>'' @ [CHR 0x0A] @ ''        '' @ [CHR 0x0A] @
          ''        <p class='' @ [CHR 0x22] @ ''text-muted small'' @ [CHR 0x22] @
          ''>Report generated: 10:00:00</p>'' @ [CHR 0x0A] @ ''    '') \<and>
   field clean_result ''overall_summary'' = Some (JStr ''CLEAN: no threats found'') \<and>
   displayScanResult decimal_gt0 ''10:00:00'' clean_result =
     Inr ([CHR 0x0A] @ ''        <h4 class='' @ [CHR 0x22] @ ''text-success'' @ [CHR 0x22] @
          ''>Scan Result for: http://x</h4>'' @ [CHR 0x0A] @ ''        <p class='' @
          [CHR 0x22] @ ''h5 text-success'' @ [CHR 0x22] @ ''>CLEAN: no threats found</p>'' @
          [CHR 0x0A] @ ''        <hr>'' @ [CHR 0x0A] @ ''        '' @ [CHR 0x0A] @
          ''        <p class='' @ [CHR 0x22] @ ''text-muted small'' @ [CHR 0x22] @
          ''>Report generated: 10:00:00</p>'' @ [CHR 0x0A] @ ''    '') \<and>
   field mixed_result ''overall_summary'' = Some (JStr ''WARNING, then DANGER'') \<and>
   displayScanResult decimal_gt0 ''10:00:00'' mixed_result =
     Inr ([CHR 0x0A] @ ''        <h4 class='' @ [CHR 0x22] @ ''text-danger'' @ [CHR 0x22] @
          ''>Scan Result for: http://x</h4>'' @ [CHR 0x0A] @ ''        <p class='' @
          [CHR 0x22] @ ''h5 text-danger'' @ [CHR 0x22] @ ''>WARNING, then DANGER</p>'' @
          [CHR 0x0A] @ ''        <hr>'' @ [CHR 0x0A] @ ''        '' @ [CHR 0x0A] @
          ''        <p class='' @ [CHR 0x22] @ ''text-muted small'' @ [CHR 0x22] @
          ''>Report generated: 10:00:00</p>'' @ [CHR 0x0A] @ ''    '')"
  using statusClass_from_summary[of danger_result "''DANGER: malicious''" decimal_gt0 "''10:00:00''"]
        statusClass_from_summary[of warning_result "''WARNING: suspicious''" decimal_gt0 "''10:00:00''"]
        statusClass_from_summary[of clean_result "''CLEAN: no threats found''" decimal_gt0 "''10:00:00''"]
        statusClass_from_summary[of mixed_result "''WARNING, then DANGER''" decimal_gt0 "''10:00:00''"]
  by (simp add: danger_result_def warning_result_def clean_result_def mixed_result_def
        displayScanResult_def andThen_simps statusClass_def to_str_def virustotal_html_def
        result_html_def line_simps prints_def section_prints_def sublist_code(3))

lemma displayScanResult_Inr:
  assumes "displayScanResult str_gt0 now data = Inr html"
  shows "((\<exists>s. field data ''overall_summary'' = Some (JStr s)) \<or>
          (\<exists>xs. field data ''overall_summary'' = Some (JArr xs))) \<and>
         field data ''details'' \<noteq> None \<and> field data ''details'' \<noteq> Some JNull"
proof -
  from assms obtain summary cls details vt where
    1: "get_prop (Some data) ''overall_summary'' = Inr summary" and
    2: "statusClass summary = Inr cls" and
    3: "get_prop (Some data) ''details'' = Inr details" and
    4: "get_prop details ''virustotal'' = Inr vt"
    unfolding displayScanResult_def andThen_Inr_iff by blast
  from 1 have s: "summary = field data ''overall_summary''" by (auto simp: get_prop_Inr_iff)
  from 3 have d: "details = field data ''details''" by (auto simp: get_prop_Inr_iff)
  from 4 have "details \<noteq> None \<and> details \<noteq> Some JNull" by (auto simp: get_prop_Inr_iff)
  with statusClass_Inr[OF 2] s d show ?thesis by auto
qed

lemma displayScanResult_missing:
  assumes "field data ''overall_summary'' = None \<or> field data ''details'' = None"
  shows "displayScanResult str_gt0 now data = Inl TypeError"
proof (cases "data = JNull")
  case True
  then show ?thesis by (simp add: displayScanResult_def andThen_simps)
next
  case False
  note g = get_prop_nonnull[OF False]
  show ?thesis
  proof (cases "statusClass (field data ''overall_summary'')")
    case (Inl e)
    with statusClass_throws[OF Inl] show ?thesis
      by (simp add: displayScanResult_def g andThen_simps)
  next
    case (Inr cls)
    with assms have "field data ''details'' = None"
      by (auto simp add: statusClass_absent)
    with Inr show ?thesis
      by (simp add: displayScanResult_def g andThen_simps)
  qed
qed

text \<open>
  C10, as the code has it. \<open>displayScanResult\<close> reads \<^verbatim>\<open>data.overall_summary\<close> and
  \<^verbatim>\<open>data.details\<close> unconditionally: it returns normally only when the summary is a
  string or an array and \<^verbatim>\<open>details\<close> is present and not \<^verbatim>\<open>null\<close>. So for a 2xx scan
  response that lacks either field it throws a TypeError, and the submission of a
  signed-in user ends in the \<^verbatim>\<open>catch\<close> branch: the request was made, the error is
  logged, the result area shows the could-not-connect message and the input is not
  cleared.
\<close>

theorem render_needs_summary_and_details:
  assumes "getElementById ''url-input'' (document s) = Some urlInput"
    and "input_value urlInput \<noteq> []"
    and "sessionStorage s ''currentUserId'' = Some userId" and "userId \<noteq> []"
    and "getElementById ''url-scan-result'' (document s) \<noteq> None"
    and "ok st"
  shows "(\<forall>html. displayScanResult str_gt0 now data = Inr html \<longrightarrow>
            ((\<exists>text. field data ''overall_summary'' = Some (JStr text)) \<or>
             (\<exists>xs. field data ''overall_summary'' = Some (JArr xs))) \<and>
            field data ''details'' \<noteq> None \<and> field data ''details'' \<noteq> Some JNull) \<and>
         (field data ''overall_summary'' = None \<or> field data ''details'' = None \<longrightarrow>
            displayScanResult str_gt0 now data = Inl TypeError \<and>
            handleUrlScan str_gt0 now (Response st (Json data)) s =
              (None, set_innerHTML ''url-scan-result'' scan_unreachable_html
                       (console_error ''Network error during URL scan:'' TypeError
                          (fetch (Scan (input_value urlInput) userId)
                             (set_innerHTML ''url-scan-result'' scanning_html s)))))"
proof -
  have only: "\<forall>html. displayScanResult str_gt0 now data = Inr html \<longrightarrow>
            ((\<exists>text. field data ''overall_summary'' = Some (JStr text)) \<or>
             (\<exists>xs. field data ''overall_summary'' = Some (JArr xs))) \<and>
            field data ''details'' \<noteq> None \<and> field data ''details'' \<noteq> Some JNull"
    using displayScanResult_Inr by blast
  have missing: "handleUrlScan str_gt0 now (Response st (Json data)) s =
              (None, set_innerHTML ''url-scan-result'' scan_unreachable_html
                       (console_error ''Network error during URL scan:'' TypeError
                          (fetch (Scan (input_value urlInput) userId)
                             (set_innerHTML ''url-scan-result'' scanning_html s))))"
    if "displayScanResult str_gt0 now data = Inl TypeError"
    using that assms
    by (auto simp add: handleUrlScan_def scan_try_def Let_def split: option.splits)
  from only missing displayScanResult_missing show ?thesis by blast
qed

theorem render_needs_summary_and_details_witness:
  "getElementById ''url-input'' (document (signed_in ''7'' ''a@b.com'')) =
     Some (node ''url-input'' False [] ''http://x'') \<and>
   sessionStorage (signed_in ''7'' ''a@b.com'') ''currentUserId'' = Some ''7'' \<and>
   getElementById ''url-scan-result'' (document (signed_in ''7'' ''a@b.com'')) \<noteq> None \<and>
   ok 200 \<and>
   field danger_result ''overall_summary'' = Some (JStr ''DANGER: malicious'') \<and>
   field no_details_result ''details'' = None \<and>
   displayScanResult decimal_gt0 ''10:00:00'' no_details_result = Inl TypeError \<and>
   handleUrlScan decimal_gt0 ''10:00:00'' (Response 200 (Json no_details_result))
       (signed_in ''7'' ''a@b.com'') =
     (None, set_innerHTML ''url-scan-result'' scan_unreachable_html
              (console_error ''Network error during URL scan:'' TypeError
                 (fetch (Scan ''http://x'' ''7'')
                    (set_innerHTML ''url-scan-result'' scanning_html (signed_in ''7'' ''a@b.com'')))))"
  using render_needs_summary_and_details[of "signed_in ''7'' ''a@b.com''"
          "node ''url-input'' False [] ''http://x''" "''7''" 200 decimal_gt0 "''10:00:00''"
          no_details_result]
        render_needs_summary_and_details[of "signed_in ''7'' ''a@b.com''"
          "node ''url-input'' False [] ''http://x''" "''7''" 200 decimal_gt0 "''10:00:00''"
          danger_result]
  by (simp add: signed_in_def fresh_def page_facts ok_def no_details_result_def node_def
        danger_result_def)

text \<open>
  C10 as stated fails: a result whose summary is an array and whose \<^verbatim>\<open>details\<close> is a
  number carries neither a summary string nor a details object, and is rendered without
  any exception (arrays have \<^verbatim>\<open>includes\<close> too, and reading a property of a number
  gives \<^verbatim>\<open>undefined\<close>).
\<close>

theorem render_array_summary_returns:
  "field array_result ''overall_summary'' = Some (JArr [JStr ''DANGER'']) \<and>
   field array_result ''details'' = Some (JNum 1) \<and>
   displayScanResult decimal_gt0 ''10:00:00'' array_result =
     Inr (result_html ''text-danger'' ''undefined'' ''DANGER'' [] ''10:00:00'')"
  by (simp add: array_result_def displayScanResult_def andThen_simps statusClass_def to_str_def)

section \<open>Logging in\<close>

lemma goToDashboard_keeps:
  "sessionStorage (snd (goToDashboard s)) = sessionStorage s"
  "alerts (snd (goToDashboard s)) = alerts s"
  "console (snd (goToDashboard s)) = console s"
  "requests (snd (goToDashboard s)) = requests s"
  by (simp_all add: goToDashboard_def showView_keeps)

lemma goToDashboard_no_throw:
  "getElementById ''welcome-message'' (document s) \<noteq> None \<Longrightarrow> fst (goToDashboard s) = None"
  by (simp add: goToDashboard_def showView_no_throw)

lemma goToDashboard_visible:
  assumes "is_view_id ''dashboard-view'' (document s)" "is_view_id ''login-view'' (document s)"
  shows "visible_views (document (snd (goToDashboard s))) =
           (if item_truthy s ''currentUserId'' then [''dashboard-view''] else [''login-view''])"
  using assms by (simp add: goToDashboard_def showView_visible)

lemma login_try_2xx:
  assumes "ok st" "result \<noteq> JNull"
    and "to_str (field result ''id'') = Inr userId"
    and "to_str (field result ''email'') = Inr mail"
  shows "login_try email (Response st (Json result)) s =
           goToDashboard
             (setItem ''currentUserEmail'' mail
                (setItem ''currentUserId'' userId
                   (alert ''Login successful!'' (fetch (Login email) s))))"
  using assms by (simp add: login_try_def Let_def get_prop_nonnull andThen_simps)

lemma login_try_rejected:
  assumes "\<not> ok st" "result \<noteq> JNull"
    and "or_else (field result ''detail'') ''Invalid email or user not found.'' = Inr shown"
  shows "login_try email (Response st (Json result)) s =
           (None, alert (''Login failed: '' @ shown) (fetch (Login email) s))"
  using assms by (simp add: login_try_def Let_def get_prop_nonnull andThen_simps)

lemma handleLogin_2xx:
  assumes "getElementById ''login-email'' (document s) = Some input"
    and "getElementById ''welcome-message'' (document s) \<noteq> None"
    and "ok st" "result \<noteq> JNull"
    and "to_str (field result ''id'') = Inr userId"
    and "to_str (field result ''email'') = Inr mail"
  shows "handleLogin (Response st (Json result)) s =
           (None, snd (goToDashboard
             (setItem ''currentUserEmail'' mail
                (setItem ''currentUserId'' userId
                   (alert ''Login successful!'' (fetch (Login (input_value input)) s))))))"
proof -
  let ?s = "setItem ''currentUserEmail'' mail
                (setItem ''currentUserId'' userId
                   (alert ''Login successful!'' (fetch (Login (input_value input)) s)))"
  have "getElementById ''welcome-message'' (document ?s) \<noteq> None"
    using assms(2) by (simp add: setItem_def alert_def fetch_def)
  then have "fst (goToDashboard ?s) = None" by (rule goToDashboard_no_throw)
  then obtain s' where "goToDashboard ?s = (None, s')"
    by (cases "goToDashboard ?s") simp
  then show ?thesis
    using assms(1) by (simp add: handleLogin_def login_try_2xx[OF assms(3-6)])
qed

lemma handleLogin_rejected:
  assumes "getElementById ''login-email'' (document s) = Some input"
    and "\<not> ok st" "result \<noteq> JNull"
    and "or_else (field result ''detail'') ''Invalid email or user not found.'' = Inr shown"
  shows "handleLogin (Response st (Json result)) s =
           (None, alert (''Login failed: '' @ shown) (fetch (Login (input_value input)) s))"
  using assms(1) by (simp add: handleLogin_def login_try_rejected[OF assms(2-4)])

lemma handleLogin_failure_keeps_session:
  assumes "\<not> ok st"
  shows "sessionStorage (snd (handleLogin (Response st b) s)) = sessionStorage s \<and>
         document (snd (handleLogin (Response st b) s)) = document s"
  using assms
  by (cases b)
     (auto simp add: handleLogin_def login_try_def Let_def alert_def console_error_def fetch_def
        split: sum.splits prod.splits option.splits)

lemma handleLogin_failure_one_alert:
  assumes "getElementById ''login-email'' (document s) = Some input" and "\<not> ok st"
  shows "\<exists>message. alerts (snd (handleLogin (Response st b) s)) = alerts s @ [message]"
  using assms
  by (cases b)
     (auto simp add: handleLogin_def login_try_def Let_def alert_def console_error_def fetch_def
        split: sum.splits prod.splits option.splits)

lemma goToDashboard_skeleton: "skeleton (document (snd (goToDashboard s))) = skeleton (document s)"
  by (simp add: goToDashboard_def showView_skeleton)

text \<open>
  C1, as the code has it. On a page that has the login field, the dashboard and login
  views and the welcome line: if the status is 2xx and the body is JSON other than
  \<^verbatim>\<open>null\<close> whose \<^verbatim>\<open>id\<close> and \<^verbatim>\<open>email\<close> convert to strings, both session keys are
  written with those strings, the success alert is raised, and \<open>goToDashboard\<close> leaves
  the dashboard visible when the stored id is not empty and the login view when it is
  empty. If the status is not 2xx then, whatever the body, the session and the document
  are unchanged and exactly one alert is raised; when the body is JSON other than
  \<^verbatim>\<open>null\<close>, that alert is \<^verbatim>\<open>Login failed:\<close> followed by the gateway's detail if the
  detail is truthy and converts to a string, and by the generic text if the detail is
  absent or falsy.
\<close>

theorem login_outcome:
  assumes "getElementById ''login-email'' (document s) = Some input"
    and "is_view_id ''dashboard-view'' (document s)" and "is_view_id ''login-view'' (document s)"
    and "getElementById ''welcome-message'' (document s) \<noteq> None"
  shows "if ok st then
           (\<forall>result userId mail.
              body = Json result \<longrightarrow> result \<noteq> JNull \<longrightarrow>
              to_str (field result ''id'') = Inr userId \<longrightarrow>
              to_str (field result ''email'') = Inr mail \<longrightarrow>
                sessionStorage (snd (handleLogin (Response st body) s)) =
                  (sessionStorage s)(''currentUserId'' \<mapsto> userId, ''currentUserEmail'' \<mapsto> mail) \<and>
                alerts (snd (handleLogin (Response st body) s)) =
                  alerts s @ [''Login successful!''] \<and>
                visible_views (document (snd (handleLogin (Response st body) s))) =
                  (if userId \<noteq> [] then [''dashboard-view''] else [''login-view'']))
         else
           sessionStorage (snd (handleLogin (Response st body) s)) = sessionStorage s \<and>
           document (snd (handleLogin (Response st body) s)) = document s \<and>
           (\<exists>message. alerts (snd (handleLogin (Response st body) s)) = alerts s @ [message]) \<and>
           (\<forall>result.
              body = Json result \<longrightarrow> result \<noteq> JNull \<longrightarrow>
                (if truthy (field result ''detail'') then
                   (\<forall>shown. to_str (field result ''detail'') = Inr shown \<longrightarrow>
                      alerts (snd (handleLogin (Response st body) s)) =
                        alerts s @ [''Login failed: '' @ shown])
                 else
                   alerts (snd (handleLogin (Response st body) s)) =
                     alerts s @ [''Login failed: Invalid email or user not found.'']))"
proof (cases "ok st")
  case True
  have "sessionStorage (snd (handleLogin (Response st (Json result)) s)) =
                  (sessionStorage s)(''currentUserId'' \<mapsto> userId, ''currentUserEmail'' \<mapsto> mail) \<and>
                alerts (snd (handleLogin (Response st (Json result)) s)) =
                  alerts s @ [''Login successful!''] \<and>
                visible_views (document (snd (handleLogin (Response st (Json result)) s))) =
                  (if userId \<noteq> [] then [''dashboard-view''] else [''login-view''])"
    if "result \<noteq> JNull"
       "to_str (field result ''id'') = Inr userId" "to_str (field result ''email'') = Inr mail"
    for result userId mail
    using assms(2,3)
    by (simp add: handleLogin_2xx[OF assms(1) assms(4) True that]
          goToDashboard_keeps goToDashboard_visible
          setItem_def alert_def fetch_def item_truthy_def)
  with True show ?thesis by simp
next
  case False
  have keeps: "sessionStorage (snd (handleLogin (Response st body) s)) = sessionStorage s \<and>
               document (snd (handleLogin (Response st body) s)) = document s"
    using False by (rule handleLogin_failure_keeps_session)
  have one: "\<exists>message. alerts (snd (handleLogin (Response st body) s)) = alerts s @ [message]"
    using assms(1) False by (rule handleLogin_failure_one_alert)
  have detail: "alerts (snd (handleLogin (Response st (Json result)) s)) =
                  alerts s @ [''Login failed: '' @ shown]"
    if "result \<noteq> JNull" "truthy (field result ''detail'')"
       "to_str (field result ''detail'') = Inr shown"
    for result shown
  proof -
    from that(2,3)
    have "or_else (field result ''detail'') ''Invalid email or user not found.'' = Inr shown"
      by (simp add: or_else_def)
    from handleLogin_rejected[OF assms(1) False that(1) this] show ?thesis
      by (simp add: alert_def fetch_def)
  qed
  have generic: "alerts (snd (handleLogin (Response st (Json result)) s)) =
                  alerts s @ [''Login failed: Invalid email or user not found.'']"
    if "result \<noteq> JNull" "\<not> truthy (field result ''detail'')"
    for result
  proof -
    from that(2)
    have "or_else (field result ''detail'') ''Invalid email or user not found.'' =
            Inr ''Invalid email or user not found.''"
      by (simp add: or_else_def)
    from handleLogin_rejected[OF assms(1) False that(1) this] show ?thesis
      by (simp add: alert_def fetch_def)
  qed
  from False keeps one detail generic show ?thesis by auto
qed

theorem login_outcome_witness:
  "getElementById ''login-email'' (document fresh) = Some (node ''login-email'' False [] ''a@b.com'') \<and>
   is_view_id ''dashboard-view'' (document fresh) \<and> is_view_id ''login-view'' (document fresh) \<and>
   getElementById ''welcome-message'' (document fresh) \<noteq> None \<and>
   ok 200 \<and> \<not> ok 404 \<and>
   to_str (field (login_body (JNum 7) (JStr ''a@b.com'')) ''id'') = Inr ''7'' \<and>
   to_str (field (login_body (JNum 7) (JStr ''a@b.com'')) ''email'') = Inr ''a@b.com'' \<and>
   sessionStorage (snd (handleLogin (Response 200 (Json (login_body (JNum 7) (JStr ''a@b.com'')))) fresh)) =
     [''currentUserId'' \<mapsto> ''7'', ''currentUserEmail'' \<mapsto> ''a@b.com''] \<and>
   alerts (snd (handleLogin (Response 200 (Json (login_body (JNum 7) (JStr ''a@b.com'')))) fresh)) =
     [''Login successful!''] \<and>
   visible_views (document (snd (handleLogin (Response 200 (Json (login_body (JNum 7) (JStr ''a@b.com'')))) fresh))) =
     [''dashboard-view''] \<and>
   truthy (field (JObj [(''detail'', JStr ''User not found'')]) ''detail'') \<and>
   sessionStorage (snd (handleLogin (Response 404 (Json (JObj [(''detail'', JStr ''User not found'')]))) fresh)) =
     Map.empty \<and>
   document (snd (handleLogin (Response 404 (Json (JObj [(''detail'', JStr ''User not found'')]))) fresh)) =
     page \<and>
   alerts (snd (handleLogin (Response 404 (Json (JObj [(''detail'', JStr ''User not found'')]))) fresh)) =
     [''Login failed: User not found''] \<and>
   \<not> truthy (field (JObj []) ''detail'') \<and>
   alerts (snd (handleLogin (Response 404 (Json (JObj []))) fresh)) =
     [''Login failed: Invalid email or user not found.''] \<and>
   sessionStorage (snd (handleLogin (Response 404 NotJson) fresh)) = Map.empty \<and>
   document (snd (handleLogin (Response 404 NotJson) fresh)) = page \<and>
   length (alerts (snd (handleLogin (Response 404 NotJson) fresh))) = 1"
  using login_outcome[of fresh "node ''login-email'' False [] ''a@b.com''" 200
          "Json (login_body (JNum 7) (JStr ''a@b.com''))"]
        login_outcome[of fresh "node ''login-email'' False [] ''a@b.com''" 404
          "Json (JObj [(''detail'', JStr ''User not found'')])"]
        login_outcome[of fresh "node ''login-email'' False [] ''a@b.com''" 404 "Json (JObj [])"]
        login_outcome[of fresh "node ''login-email'' False [] ''a@b.com''" 404 NotJson]
  by (auto simp add: fresh_def page_facts ok_def login_body_def to_str_def)

text \<open>
  C1 as stated fails on a 2xx reply whose id is the empty string: both keys are
  written, \<open>goToDashboard\<close> runs, and it is the login view that is shown.
\<close>

theorem login_2xx_empty_id_shows_login:
  "ok 200 \<and>
   sessionStorage (snd (handleLogin (Response 200 (Json (login_body (JStr []) (JStr ''a@b.com'')))) fresh)) =
     [''currentUserId'' \<mapsto> [], ''currentUserEmail'' \<mapsto> ''a@b.com''] \<and>
   visible_views (document (snd (handleLogin (Response 200 (Json (login_body (JStr []) (JStr ''a@b.com'')))) fresh))) =
     [''login-view'']"
  by (simp add: handleLogin_2xx[where input = "node ''login-email'' False [] ''a@b.com''"
                  and userId = "[]" and mail = "''a@b.com''"]
        fresh_def page_facts ok_def login_body_def to_str_def
        goToDashboard_keeps goToDashboard_visible setItem_def alert_def fetch_def item_truthy_def)

text \<open>
  C9, as the code has it. On such a page, after a 2xx reply whose body is JSON other
  than \<^verbatim>\<open>null\<close> and whose \<^verbatim>\<open>id\<close> converts to a non-empty string (the \<^verbatim>\<open>email\<close>
  converting too), that string is stored as the user id, the stored id passes the
  truthiness test, the dashboard is visible, and a later \<open>goToDashboard\<close> shows the
  dashboard again. A body without an \<^verbatim>\<open>id\<close> is such a reply: the string stored is
  \<^verbatim>\<open>undefined\<close>.
\<close>

theorem login_2xx_authenticates:
  assumes "getElementById ''login-email'' (document s) = Some input"
    and "is_view_id ''dashboard-view'' (document s)" and "is_view_id ''login-view'' (document s)"
    and "getElementById ''welcome-message'' (document s) \<noteq> None"
    and "ok st" and "result \<noteq> JNull"
    and "to_str (field result ''id'') = Inr userId" and "userId \<noteq> []"
    and "to_str (field result ''email'') = Inr mail"
  shows "sessionStorage (snd (handleLogin (Response st (Json result)) s)) ''currentUserId'' = Some userId \<and>
         item_truthy (snd (handleLogin (Response st (Json result)) s)) ''currentUserId'' \<and>
         visible_views (document (snd (handleLogin (Response st (Json result)) s))) = [''dashboard-view''] \<and>
         visible_views (document (snd (goToDashboard (snd (handleLogin (Response st (Json result)) s))))) =
           [''dashboard-view''] \<and>
         (field result ''id'' = None \<longrightarrow> userId = ''undefined'')"
proof -
  let ?w = "setItem ''currentUserEmail'' mail
              (setItem ''currentUserId'' userId
                 (alert ''Login successful!'' (fetch (Login (input_value input)) s)))"
  let ?s' = "snd (handleLogin (Response st (Json result)) s)"
  have eq: "?s' = snd (goToDashboard ?w)"
    by (simp add: handleLogin_2xx[OF assms(1,4,5,6,7,9)])
  have doc: "document ?w = document s" and sto: "sessionStorage ?w ''currentUserId'' = Some userId"
    by (simp_all add: setItem_def alert_def fetch_def)
  have t: "item_truthy ?w ''currentUserId''"
    using assms(8) by (simp add: item_truthy_def sto)
  have 1: "sessionStorage ?s' ''currentUserId'' = Some userId"
    by (simp add: eq goToDashboard_keeps sto)
  then have 2: "item_truthy ?s' ''currentUserId''"
    using assms(8) by (simp add: item_truthy_def)
  have 3: "visible_views (document ?s') = [''dashboard-view'']"
    using assms(2,3) t by (simp add: eq goToDashboard_visible doc)
  have "skeleton (document ?s') = skeleton (document s)"
    by (simp add: eq goToDashboard_skeleton doc)
  then have "is_view_id ''dashboard-view'' (document ?s')" "is_view_id ''login-view'' (document ?s')"
    using assms(2,3) is_view_id_skeleton by blast+
  then have 4: "visible_views (document (snd (goToDashboard ?s'))) = [''dashboard-view'']"
    using 2 by (simp add: goToDashboard_visible)
  have 5: "field result ''id'' = None \<longrightarrow> userId = ''undefined''"
    using assms(7) by (auto simp add: to_str_def)
  from 1 2 3 4 5 show ?thesis by blast
qed

theorem login_2xx_authenticates_witness:
  "getElementById ''login-email'' (document fresh) = Some (node ''login-email'' False [] ''a@b.com'') \<and>
   is_view_id ''dashboard-view'' (document fresh) \<and> is_view_id ''login-view'' (document fresh) \<and>
   getElementById ''welcome-message'' (document fresh) \<noteq> None \<and> ok 200 \<and>
   field (JObj []) ''id'' = None \<and> field (JObj []) ''email'' = None \<and>
   sessionStorage (snd (handleLogin (Response 200 (Json (JObj []))) fresh)) ''currentUserId'' =
     Some ''undefined'' \<and>
   visible_views (document (snd (handleLogin (Response 200 (Json (JObj []))) fresh))) =
     [''dashboard-view''] \<and>
   visible_views (document (snd (goToDashboard (snd (handleLogin (Response 200 (Json (JObj []))) fresh))))) =
     [''dashboard-view'']"
  using login_2xx_authenticates[of fresh "node ''login-email'' False [] ''a@b.com''" 200 "JObj []"
          "''undefined''" "''undefined''"]
  by (simp add: fresh_def page_facts ok_def to_str_def)

text \<open>
  C9 as stated fails on the 2xx reply \<^verbatim>\<open>{"id": ""}\<close>: the stored id is the empty
  string, it does not pass the truthiness test, and \<open>goToDashboard\<close> shows the login
  view.
\<close>

theorem login_2xx_empty_id_not_authenticated:
  "ok 200 \<and>
   sessionStorage (snd (handleLogin (Response 200 (Json (JObj [(''id'', JStr [])]))) fresh)) ''currentUserId'' =
     Some [] \<and>
   \<not> item_truthy (snd (handleLogin (Response 200 (Json (JObj [(''id'', JStr [])]))) fresh)) ''currentUserId'' \<and>
   visible_views (document (snd (goToDashboard
       (snd (handleLogin (Response 200 (Json (JObj [(''id'', JStr [])]))) fresh))))) = [''login-view'']"
proof -
  let ?w = "setItem ''currentUserEmail'' ''undefined''
              (setItem ''currentUserId'' []
                 (alert ''Login successful!'' (fetch (Login ''a@b.com'') fresh)))"
  let ?s' = "snd (handleLogin (Response 200 (Json (JObj [(''id'', JStr [])]))) fresh)"
  have eq: "?s' = snd (goToDashboard ?w)"
    by (simp add: handleLogin_2xx[where input = "node ''login-email'' False [] ''a@b.com''"
                  and userId = "[]" and mail = "''undefined''"]
        fresh_def page_facts ok_def to_str_def node_def)
  have sto: "sessionStorage ?s' ''currentUserId'' = Some []"
    by (simp add: eq goToDashboard_keeps setItem_def alert_def fetch_def)
  have "skeleton (document (snd (goToDashboard ?w))) = skeleton page"
    by (simp add: goToDashboard_skeleton setItem_def alert_def fetch_def fresh_def)
  then have "skeleton (document ?s') = skeleton page"
    by (simp only: eq)
  then have "is_view_id ''dashboard-view'' (document ?s')" "is_view_id ''login-view'' (document ?s')"
    using page_facts(2,4) is_view_id_skeleton by blast+
  then have "visible_views (document (snd (goToDashboard ?s'))) = [''login-view'']"
    by (simp add: goToDashboard_visible item_truthy_def sto)
  with sto show ?thesis by (simp add: item_truthy_def ok_def)
qed

section \<open>Failures of the gateway\<close>

lemma handleLogin_unanswered:
  assumes "getElementById ''login-email'' (document s) = Some input"
  shows "handleLogin NoResponse s =
           (None, alert login_unreachable
                    (console_error ''Network error during login:'' NetworkFailure
                       (fetch (Login (input_value input)) s)))"
  using assms by (simp add: handleLogin_def login_try_def Let_def)

lemma handleLogin_unparsable:
  assumes "getElementById ''login-email'' (document s) = Some input"
  shows "handleLogin (Response st NotJson) s =
           (None, alert login_unreachable
                    (console_error ''Network error during login:'' SyntaxError
                       (fetch (Login (input_value input)) s)))"
  using assms by (simp add: handleLogin_def login_try_def Let_def)

text \<open>
  C7 on the code. The gateway answers the login with status 404 and a body that is not
  JSON (an empty one, say). A response was obtained, yet \<^verbatim>\<open>response.json()\<close> rejects
  inside the \<^verbatim>\<open>try\<close>, the \<^verbatim>\<open>catch\<close> meant for network errors takes it, and the user is
  told the server could not be reached: the very alert of a login that got no response.
\<close>

theorem login_reply_reported_unreachable:
  "alerts (snd (handleLogin (Response 404 NotJson) fresh)) = [login_unreachable] \<and>
   console (snd (handleLogin (Response 404 NotJson) fresh)) =
     [(''Network error during login:'', SyntaxError)] \<and>
   alerts (snd (handleLogin NoResponse fresh)) = [login_unreachable]"
  by (simp add: handleLogin_def login_try_def Let_def fresh_def page_facts alert_def
        console_error_def fetch_def)

section \<open>The two session keys\<close>

lemma registration_try_keeps_session:
  "sessionStorage (snd (registration_try userData resp s)) = sessionStorage s"
  by (cases "await_json resp")
     (auto simp add: registration_try_def Let_def showView_keeps alert_def fetch_def
        split: sum.splits)

lemma handleRegistration_keeps_session:
  "sessionStorage (snd (handleRegistration form resp s)) = sessionStorage s"
proof (cases "collect_userData form")
  case (Inl e)
  then show ?thesis by (simp add: handleRegistration_def)
next
  case (Inr userData)
  obtain x s' where t: "registration_try userData resp s = (x, s')"
    by (cases "registration_try userData resp s")
  with registration_try_keeps_session[of userData resp s]
  have "sessionStorage s' = sessionStorage s" by simp
  with t show ?thesis
    by (cases x) (simp_all add: handleRegistration_def Inr alert_def console_error_def)
qed

lemma handleUrlScan_keeps_session:
  "sessionStorage (snd (handleUrlScan str_gt0 now resp s)) = sessionStorage s"
  by (cases "await_json resp")
     (auto simp add: handleUrlScan_def scan_try_def Let_def set_innerHTML_def set_value_def
        alert_def console_error_def fetch_def
        split: sum.splits prod.splits option.splits)

lemma handleLogin_coherent:
  assumes "session_coherent s"
    and "\<And>st result. resp = Response st (Json result) \<Longrightarrow> \<exists>mail. to_str (field result ''email'') = Inr mail"
  shows "session_coherent (snd (handleLogin resp s))"
proof (cases "await_json resp")
  case (Inl e)
  with assms(1) show ?thesis
    by (auto simp add: handleLogin_def login_try_def Let_def alert_def console_error_def fetch_def
          session_coherent_def split: option.splits)
next
  case (Inr p)
  then obtain st result where r: "resp = Response st (Json result)"
    by (cases resp rule: await_json.cases) auto
  from assms(2)[OF r] obtain mail where m: "to_str (field result ''email'') = Inr mail" by blast
  show ?thesis
  proof (cases "getElementById ''login-email'' (document s)")
    case None
    with assms(1) show ?thesis by (simp add: handleLogin_def)
  next
    case (Some input)
    show ?thesis
    proof (cases "ok st \<and> result \<noteq> JNull \<and> (\<exists>u. to_str (field result ''id'') = Inr u)")
      case True
      then obtain u where u: "to_str (field result ''id'') = Inr u" by blast
      have "sessionStorage (snd (login_try (input_value input) resp s)) ''currentUserId'' = Some u"
           "sessionStorage (snd (login_try (input_value input) resp s)) ''currentUserEmail'' = Some mail"
        using True by (simp_all add: r login_try_2xx[OF _ _ u m] goToDashboard_keeps setItem_def)
      then show ?thesis
        by (cases "login_try (input_value input) resp s")
           (auto simp add: handleLogin_def Some session_coherent_def alert_def console_error_def
              split: option.splits)
    next
      case False
      then have "sessionStorage (snd (login_try (input_value input) resp s)) = sessionStorage s"
        by (cases "result = JNull"; cases "to_str (field result ''id'')")
           (auto simp add: r login_try_def Let_def get_prop_nonnull andThen_simps alert_def
              fetch_def split: sum.splits)
      with assms(1) show ?thesis
        by (cases "login_try (input_value input) resp s")
           (auto simp add: handleLogin_def Some session_coherent_def alert_def console_error_def
              split: option.splits)
    qed
  qed
qed

text \<open>
  C3 on the code. The gateway answers the login with status 200 and the body
  \<^verbatim>\<open>{"id": 7, "email": {"toString": 1}}\<close>. The first \<^verbatim>\<open>setItem\<close> stores the id; the
  second has to convert the email to a string, which throws, so the email is never
  stored: from an empty session the login leaves the user id set and the email absent.
\<close>

theorem login_writes_id_without_email:
  "ok 200 \<and>
   sessionStorage fresh ''currentUserId'' = None \<and>
   sessionStorage fresh ''currentUserEmail'' = None \<and>
   sessionStorage
     (snd (handleLogin
        (Response 200 (Json (login_body (JNum 7) (JObj [(''toString'', JNum 1)])))) fresh))
     ''currentUserId'' = Some ''7'' \<and>
   sessionStorage
     (snd (handleLogin
        (Response 200 (Json (login_body (JNum 7) (JObj [(''toString'', JNum 1)])))) fresh))
     ''currentUserEmail'' = None"
  by (simp add: handleLogin_def login_try_def Let_def fresh_def page_facts alert_def
        console_error_def fetch_def setItem_def ok_def login_body_def andThen_simps to_str_def)

end
